theory Spec2Isabelle
  imports Main
begin

section \<open>Messages\<close>

text \<open>
  The node of \<^verbatim>\<open>rgbd-slam-node.cpp\<close> moves messages between the middleware and the
  SLAM engine behind \<^verbatim>\<open>interface_\<close>. Of every message only the fields the node itself
  reads or writes are spelled out; what it merely hands on is a type parameter
  (\<open>'imu\<close>, \<open>'img\<close>, \<open>'tf\<close>, \<open>'md\<close>, \<open>'pose\<close>, \<open>'kf\<close>) or an opaque body field. The C++ type
  \<^verbatim>\<open>double\<close> is the type parameter \<open>'f\<close>, and \<open>+\<close> on it stands for the addition of the
  source, so nothing here depends on how doubles round.
\<close>

record Time =
  sec :: int
  nanosec :: nat

record Header =
  stamp :: Time
  frame_id :: string

record 'ob Odometry =
  odom_header :: Header
  odom_body :: 'ob

record 'pb PointCloud2 =
  pcl_header :: Header
  pcl_body :: 'pb

record 'f Point =
  pt_x :: 'f
  pt_y :: 'f
  pt_z :: 'f

record 'f Quaternion =
  q_x :: 'f
  q_y :: 'f
  q_z :: 'f
  q_w :: 'f

record 'f Pose =
  position :: "'f Point"
  orientation :: "'f Quaternion"

record 'f MapMetaData =
  map_load_time :: Time
  resolution :: 'f
  width :: nat
  height :: nat
  origin :: "'f Pose"

record 'f OccupancyGrid =
  og_header :: Header
  og_info :: "'f MapMetaData"
  og_data :: "int list"

record 'gb GridMap =
  gm_header :: Header
  gm_body :: 'gb

text \<open>The request of the \<^verbatim>\<open>GetMap\<close> service: the two fields \<^verbatim>\<open>getMapServer\<close> reads.\<close>

record 'kf GetMap_Request =
  tracked_points :: bool
  kf_id_for_landmarks :: 'kf

section \<open>The engine behind \<open>interface_\<close>\<close>

text \<open>
  \<^verbatim>\<open>ORBSLAM3Interface\<close> is not part of the file; the node only calls it. Its methods are
  therefore parameters: a record of functions over an engine state \<open>'e\<close>, each returning
  the new engine state. An out-parameter that the caller default-constructs just before
  the call (\<^verbatim>\<open>Tcw\<close>, \<^verbatim>\<open>mapPCL\<close>, \<^verbatim>\<open>mapDataMsg\<close>) is a result; \<^verbatim>\<open>tfMapOdom_\<close>, a member
  passed by reference, is an argument and a result. \<^verbatim>\<open>mapDataToMsg\<close> is called with three
  and with four arguments: the last one is \<open>None\<close> where the call site leaves it out.
\<close>

record ('e, 'imu, 'ob, 'img, 'pose, 'pb, 'tf, 'md, 'f, 'gb, 'kf) ORBSLAM3Interface =
  handleIMU :: "'imu \<Rightarrow> 'e \<Rightarrow> 'e"
  getMapToOdomTF :: "'ob Odometry \<Rightarrow> 'tf \<Rightarrow> 'e \<Rightarrow> 'tf \<times> 'e"
  trackRGBDi :: "'img \<Rightarrow> 'img \<Rightarrow> 'e \<Rightarrow> (bool \<times> 'pose) \<times> 'e"
  handleLidarPCL :: "Time \<Rightarrow> 'pb PointCloud2 \<Rightarrow> 'e \<Rightarrow> 'e"
  getTraversabilityData :: "'e \<Rightarrow> ('f OccupancyGrid \<times> 'gb GridMap) \<times> 'e"
  getCurrentMapPoints :: "'e \<Rightarrow> 'pb PointCloud2 \<times> 'e"
  mapDataToMsg :: "bool \<Rightarrow> bool \<Rightarrow> 'kf option \<Rightarrow> 'e \<Rightarrow> 'md \<times> 'e"

section \<open>What a callback does to the outside\<close>

text \<open>
  Every effect of a callback other than on the node's members is an event, logged in
  program order: taking and releasing \<^verbatim>\<open>latestTimeMutex_\<close> (the constructor and the
  destructor of the \<^verbatim>\<open>lock_guard\<close>), a log line, a call into the engine, a transform
  handed to \<^verbatim>\<open>tfBroadcaster_\<close>, a message handed to one of the four publishers.
\<close>

datatype severity = DEBUG | INFO

datatype 'kf engine_call =
    HandleIMU
  | GetMapToOdomTF
  | TrackRGBDi
  | HandleLidarPCL
  | GetTraversabilityData
  | GetCurrentMapPoints
  | MapDataToMsg bool bool "'kf option"

datatype ('pb, 'tf, 'md, 'f, 'gb, 'kf) event =
    Lock
  | Unlock
  | Log severity string
  | Engine "'kf engine_call"
  | SendTransform 'tf
  | Publish_mapData 'md
  | Publish_mapPoints "'pb PointCloud2"
  | Publish_gridmap "'f OccupancyGrid"
  | Publish_traversability "'gb GridMap"

section \<open>The node\<close>

text \<open>
  The members of \<^verbatim>\<open>RgbdSlamNode\<close> that the callbacks read or write. The engine state is
  kept beside the node, not inside it, so that ``the node did not change'' can be said
  of a callback that called the engine.
\<close>

record ('tf, 'f) RgbdSlamNode =
  isTracked :: bool
  rosViz :: bool
  robot_base_frame_id :: string
  global_frame :: string
  odom_frame_id :: string
  robot_x :: 'f
  robot_y :: 'f
  latestTime :: Time
  tfMapOdom :: 'tf

text \<open>
  Modelled from the spec: the declaration of \<^verbatim>\<open>isTracked_\<close> (in the header
  \<^verbatim>\<open>rgbd-slam-node.hpp\<close>) is missing, and the constructor does not assign it; the spec
  gives the initial value false. The parameters are taken as the constructor reads them
  back with \<^verbatim>\<open>get_parameter\<close>; \<open>t0\<close> and \<open>tf0\<close> are the default-constructed
  \<^verbatim>\<open>latestTime_\<close> and \<^verbatim>\<open>tfMapOdom_\<close>.
\<close>

definition RgbdSlamNode_init ::
  "bool \<Rightarrow> string \<Rightarrow> string \<Rightarrow> string \<Rightarrow> 'f \<Rightarrow> 'f \<Rightarrow> Time \<Rightarrow> 'tf \<Rightarrow> ('tf, 'f) RgbdSlamNode" where
  "RgbdSlamNode_init ros_visualization robot_base_frame global_frame_p odom_frame rx ry t0 tf0 =
     \<lparr> isTracked = False,
       rosViz = ros_visualization,
       robot_base_frame_id = robot_base_frame,
       global_frame = global_frame_p,
       odom_frame_id = odom_frame,
       robot_x = rx,
       robot_y = ry,
       latestTime = t0,
       tfMapOdom = tf0 \<rparr>"

type_synonym ('e, 'pb, 'tf, 'md, 'f, 'gb, 'kf) outcome =
  "('tf, 'f) RgbdSlamNode \<times> 'e \<times> ('pb, 'tf, 'md, 'f, 'gb, 'kf) event list"

definition ImuCallback ::
  "('e, 'imu, 'ob, 'img, 'pose, 'pb, 'tf, 'md, 'f, 'gb, 'kf) ORBSLAM3Interface \<Rightarrow> 'imu \<Rightarrow>
   ('tf, 'f) RgbdSlamNode \<Rightarrow> 'e \<Rightarrow> ('e, 'pb, 'tf, 'md, 'f, 'gb, 'kf) outcome" where
  "ImuCallback I msgIMU n e =
     (n, handleIMU I msgIMU e, [Log DEBUG ''ImuCallback'', Engine HandleIMU])"

definition OdomCallback ::
  "('e, 'imu, 'ob, 'img, 'pose, 'pb, 'tf, 'md, 'f, 'gb, 'kf) ORBSLAM3Interface \<Rightarrow> 'ob Odometry \<Rightarrow>
   ('tf, 'f) RgbdSlamNode \<Rightarrow> 'e \<Rightarrow> ('e, 'pb, 'tf, 'md, 'f, 'gb, 'kf) outcome" where
  "OdomCallback I msgOdom n e =
     (let n1 = n\<lparr>latestTime := stamp (odom_header msgOdom)\<rparr>;
          r = getMapToOdomTF I msgOdom (tfMapOdom n1) e
      in (n1\<lparr>tfMapOdom := fst r\<rparr>, snd r,
          [Lock, Log DEBUG ''OdomCallback'', Engine GetMapToOdomTF, Unlock]))"

definition publishMapPointCloud ::
  "('e, 'imu, 'ob, 'img, 'pose, 'pb, 'tf, 'md, 'f, 'gb, 'kf) ORBSLAM3Interface \<Rightarrow>
   ('tf, 'f) RgbdSlamNode \<Rightarrow> 'e \<Rightarrow> ('e, 'pb, 'tf, 'md, 'f, 'gb, 'kf) outcome" where
  \<comment> \<open>The publish on \<^verbatim>\<open>map_points\<close> is commented out in the source: \<open>mapPCL\<close> is dropped.\<close>
  "publishMapPointCloud I n e =
     (let r = getCurrentMapPoints I e; mapPCL = fst r
      in (n, snd r, [Engine GetCurrentMapPoints]))"

definition RGBDCallback ::
  "('e, 'imu, 'ob, 'img, 'pose, 'pb, 'tf, 'md, 'f, 'gb, 'kf) ORBSLAM3Interface \<Rightarrow> 'img \<Rightarrow> 'img \<Rightarrow>
   ('tf, 'f) RgbdSlamNode \<Rightarrow> 'e \<Rightarrow> ('e, 'pb, 'tf, 'md, 'f, 'gb, 'kf) outcome" where
  "RGBDCallback I msgRGB msgD n e =
     (let r = trackRGBDi I msgRGB msgD e; ok = fst (fst r); Tcw = snd (fst r); e1 = snd r
      in if ok then
           (let n1 = n\<lparr>isTracked := True\<rparr>;
                evs = [Engine TrackRGBDi, SendTransform (tfMapOdom n1)]
            in if rosViz n1 then
                 (case publishMapPointCloud I n1 e1 of
                    (n2, e2, evs2) \<Rightarrow> (n2, e2, evs @ evs2))
               else (n1, e1, evs))
         else (n, e1, [Engine TrackRGBDi]))"

definition LidarCallback ::
  "('e, 'imu, 'ob, 'img, 'pose, 'pb, 'tf, 'md, 'f, 'gb, 'kf) ORBSLAM3Interface \<Rightarrow> 'pb PointCloud2 \<Rightarrow>
   ('tf, 'f) RgbdSlamNode \<Rightarrow> 'e \<Rightarrow> ('e, 'pb, 'tf, 'md, 'f, 'gb, 'kf) outcome" where
  "LidarCallback I msgLidar n e =
     (n, handleLidarPCL I (stamp (pcl_header msgLidar)) msgLidar e, [Engine HandleLidarPCL])"

definition publishTraversabilityData ::
  "('e, 'imu, 'ob, 'img, 'pose, 'pb, 'tf, 'md, 'f::plus, 'gb, 'kf) ORBSLAM3Interface \<Rightarrow>
   ('tf, 'f) RgbdSlamNode \<Rightarrow> 'e \<Rightarrow> ('e, 'pb, 'tf, 'md, 'f, 'gb, 'kf) outcome" where
  "publishTraversabilityData I n e =
     (let r = getTraversabilityData I e; m = fst r; e1 = snd r;
          g0 = fst m;
          g1 = g0\<lparr>og_info := (og_info g0)\<lparr>origin := (origin (og_info g0))
                 \<lparr>position := (position (origin (og_info g0)))
                    \<lparr>pt_x := pt_x (position (origin (og_info g0))) + robot_x n\<rparr>\<rparr>\<rparr>\<rparr>;
          g2 = g1\<lparr>og_info := (og_info g1)\<lparr>origin := (origin (og_info g1))
                 \<lparr>position := (position (origin (og_info g1)))
                    \<lparr>pt_y := pt_y (position (origin (og_info g1))) + robot_y n\<rparr>\<rparr>\<rparr>\<rparr>;
          g3 = g2\<lparr>og_header := (og_header g2)\<lparr>frame_id := global_frame n\<rparr>\<rparr>;
          g4 = g3\<lparr>og_header := (og_header g3)\<lparr>stamp := latestTime n\<rparr>\<rparr>
      in (n, e1,
          [Lock, Engine GetTraversabilityData, Publish_gridmap g4,
           Publish_traversability (snd m), Unlock]))"

definition publishMapData ::
  "('e, 'imu, 'ob, 'img, 'pose, 'pb, 'tf, 'md, 'f, 'gb, 'kf) ORBSLAM3Interface \<Rightarrow>
   ('tf, 'f) RgbdSlamNode \<Rightarrow> 'e \<Rightarrow> ('e, 'pb, 'tf, 'md, 'f, 'gb, 'kf) outcome" where
  "publishMapData I n e =
     (if isTracked n then
        (let r = mapDataToMsg I True False None e; mapDataMsg = fst r
         in (n, snd r,
             [Log INFO ''Publishing map data'', Engine (MapDataToMsg True False None),
              Publish_mapData mapDataMsg]))
      else (n, e, []))"

text \<open>
  The service handler fills \<^verbatim>\<open>response->data\<close>: the response is its result, beside the
  engine state and the events.
\<close>

definition getMapServer ::
  "('e, 'imu, 'ob, 'img, 'pose, 'pb, 'tf, 'md, 'f, 'gb, 'kf) ORBSLAM3Interface \<Rightarrow>
   'kf GetMap_Request \<Rightarrow> 'e \<Rightarrow> 'md \<times> 'e \<times> ('pb, 'tf, 'md, 'f, 'gb, 'kf) event list" where
  "getMapServer I request e =
     (let r = mapDataToMsg I False (tracked_points request)
                (Some (kf_id_for_landmarks request)) e;
          mapDataMsg = fst r
      in (mapDataMsg, snd r,
          [Log INFO ''GetMap2 service called.'',
           Engine (MapDataToMsg False (tracked_points request)
                     (Some (kf_id_for_landmarks request)))]))"

section \<open>The executor\<close>

text \<open>
  What the constructor registers: four subscriptions (the image pair arrives already
  matched, from the synchronizer), two wall timers and one service. A single-threaded
  executor runs the callbacks one after the other; \<open>run\<close> is such an execution. The
  response of the service goes back to its caller and is not part of the outcome.
\<close>

datatype ('imu, 'ob, 'img, 'pb, 'kf) op =
    Imu 'imu
  | Odom "'ob Odometry"
  | RGBD 'img 'img
  | Lidar "'pb PointCloud2"
  | TraversabilityTimer
  | MapDataTimer
  | GetMap "'kf GetMap_Request"

fun step ::
  "('e, 'imu, 'ob, 'img, 'pose, 'pb, 'tf, 'md, 'f::plus, 'gb, 'kf) ORBSLAM3Interface \<Rightarrow>
   ('imu, 'ob, 'img, 'pb, 'kf) op \<Rightarrow>
   ('tf, 'f) RgbdSlamNode \<Rightarrow> 'e \<Rightarrow> ('e, 'pb, 'tf, 'md, 'f, 'gb, 'kf) outcome" where
  "step I (Imu msgIMU) n e = ImuCallback I msgIMU n e"
| "step I (Odom msgOdom) n e = OdomCallback I msgOdom n e"
| "step I (RGBD msgRGB msgD) n e = RGBDCallback I msgRGB msgD n e"
| "step I (Lidar msgLidar) n e = LidarCallback I msgLidar n e"
| "step I TraversabilityTimer n e = publishTraversabilityData I n e"
| "step I MapDataTimer n e = publishMapData I n e"
| "step I (GetMap request) n e =
     (case getMapServer I request e of (response, e1, evs) \<Rightarrow> (n, e1, evs))"

fun run ::
  "('e, 'imu, 'ob, 'img, 'pose, 'pb, 'tf, 'md, 'f::plus, 'gb, 'kf) ORBSLAM3Interface \<Rightarrow>
   ('imu, 'ob, 'img, 'pb, 'kf) op list \<Rightarrow>
   ('tf, 'f) RgbdSlamNode \<Rightarrow> 'e \<Rightarrow> ('e, 'pb, 'tf, 'md, 'f, 'gb, 'kf) outcome" where
  "run I [] n e = (n, e, [])"
| "run I (x # xs) n e =
     (case step I x n e of
        (n1, e1, evs1) \<Rightarrow>
          (case run I xs n1 e1 of (n2, e2, evs2) \<Rightarrow> (n2, e2, evs1 @ evs2)))"

definition node_of :: "'n \<times> 'e \<times> 'v \<Rightarrow> 'n" where
  "node_of r = fst r"

definition engine_of :: "'n \<times> 'e \<times> 'v \<Rightarrow> 'e" where
  "engine_of r = fst (snd r)"

definition events_of :: "'n \<times> 'e \<times> 'v \<Rightarrow> 'v" where
  "events_of r = snd (snd r)"

section \<open>Reading an event log\<close>

fun transforms :: "('pb, 'tf, 'md, 'f, 'gb, 'kf) event list \<Rightarrow> 'tf list" where
  "transforms [] = []"
| "transforms (SendTransform tf # evs) = tf # transforms evs"
| "transforms (ev # evs) = transforms evs"

fun mapData_msgs :: "('pb, 'tf, 'md, 'f, 'gb, 'kf) event list \<Rightarrow> 'md list" where
  "mapData_msgs [] = []"
| "mapData_msgs (Publish_mapData m # evs) = m # mapData_msgs evs"
| "mapData_msgs (ev # evs) = mapData_msgs evs"

fun mapPoints_msgs :: "('pb, 'tf, 'md, 'f, 'gb, 'kf) event list \<Rightarrow> 'pb PointCloud2 list" where
  "mapPoints_msgs [] = []"
| "mapPoints_msgs (Publish_mapPoints m # evs) = m # mapPoints_msgs evs"
| "mapPoints_msgs (ev # evs) = mapPoints_msgs evs"

fun gridmap_msgs :: "('pb, 'tf, 'md, 'f, 'gb, 'kf) event list \<Rightarrow> 'f OccupancyGrid list" where
  "gridmap_msgs [] = []"
| "gridmap_msgs (Publish_gridmap m # evs) = m # gridmap_msgs evs"
| "gridmap_msgs (ev # evs) = gridmap_msgs evs"

fun traversability_msgs :: "('pb, 'tf, 'md, 'f, 'gb, 'kf) event list \<Rightarrow> 'gb GridMap list" where
  "traversability_msgs [] = []"
| "traversability_msgs (Publish_traversability m # evs) = m # traversability_msgs evs"
| "traversability_msgs (ev # evs) = traversability_msgs evs"

fun engine_calls :: "('pb, 'tf, 'md, 'f, 'gb, 'kf) event list \<Rightarrow> 'kf engine_call list" where
  "engine_calls [] = []"
| "engine_calls (Engine c # evs) = c # engine_calls evs"
| "engine_calls (ev # evs) = engine_calls evs"

text \<open>
  The events that happen while \<^verbatim>\<open>latestTimeMutex_\<close> is held; the flag says whether it is
  held at the start of the log.
\<close>

fun under_lock ::
  "bool \<Rightarrow> ('pb, 'tf, 'md, 'f, 'gb, 'kf) event list \<Rightarrow> ('pb, 'tf, 'md, 'f, 'gb, 'kf) event list" where
  "under_lock held [] = []"
| "under_lock held (Lock # evs) = under_lock True evs"
| "under_lock held (Unlock # evs) = under_lock False evs"
| "under_lock held (ev # evs) = (if held then ev # under_lock held evs else under_lock held evs)"

text \<open>An engine call, a transform broadcast or a publish: the work a lock should not span.\<close>

fun engine_or_publish :: "('pb, 'tf, 'md, 'f, 'gb, 'kf) event \<Rightarrow> bool" where
  "engine_or_publish (Engine c) = True"
| "engine_or_publish (SendTransform tf) = True"
| "engine_or_publish (Publish_mapData m) = True"
| "engine_or_publish (Publish_mapPoints m) = True"
| "engine_or_publish (Publish_gridmap m) = True"
| "engine_or_publish (Publish_traversability m) = True"
| "engine_or_publish ev = False"

definition lock_spans_call :: "('pb, 'tf, 'md, 'f, 'gb, 'kf) event list \<Rightarrow> bool" where
  "lock_spans_call evs = list_ex engine_or_publish (under_lock False evs)"

text \<open>
  Whether an operation is an RGB-D callback whose tracking call succeeds in engine state
  \<open>e\<close>, that is, whether it runs the branch that assigns \<^verbatim>\<open>isTracked_\<close>.
\<close>

fun successful_track ::
  "('e, 'imu, 'ob, 'img, 'pose, 'pb, 'tf, 'md, 'f, 'gb, 'kf) ORBSLAM3Interface \<Rightarrow>
   ('imu, 'ob, 'img, 'pb, 'kf) op \<Rightarrow> 'e \<Rightarrow> bool" where
  "successful_track I (RGBD msgRGB msgD) e = fst (fst (trackRGBDi I msgRGB msgD e))"
| "successful_track I x e = False"

fun is_Odom :: "('imu, 'ob, 'img, 'pb, 'kf) op \<Rightarrow> bool" where
  "is_Odom (Odom msgOdom) = True"
| "is_Odom x = False"

section \<open>A stand-in engine\<close>

text \<open>
  To run the callbacks on concrete inputs an engine is needed. This one counts its calls
  in its state; tracking succeeds when the two frames carry the same number; the
  transform it computes is the second of the odometry stamp; the map data it returns is
  the call count.
\<close>

definition grid0 :: "int OccupancyGrid" where
  "grid0 =
     \<lparr> og_header = \<lparr> stamp = \<lparr> sec = 0, nanosec = 0 \<rparr>, frame_id = ''engine'' \<rparr>,
       og_info = \<lparr> map_load_time = \<lparr> sec = 0, nanosec = 0 \<rparr>, resolution = 1,
                   width = 2, height = 1,
                   origin = \<lparr> position = \<lparr> pt_x = 10, pt_y = 20, pt_z = 0 \<rparr>,
                              orientation = \<lparr> q_x = 0, q_y = 0, q_z = 0, q_w = 1 \<rparr> \<rparr> \<rparr>,
       og_data = [0, 100] \<rparr>"

definition gridmap0 :: "unit GridMap" where
  "gridmap0 =
     \<lparr> gm_header = \<lparr> stamp = \<lparr> sec = 0, nanosec = 0 \<rparr>, frame_id = ''engine'' \<rparr>,
       gm_body = () \<rparr>"

definition cloud0 :: "unit PointCloud2" where
  "cloud0 =
     \<lparr> pcl_header = \<lparr> stamp = \<lparr> sec = 0, nanosec = 0 \<rparr>, frame_id = ''engine'' \<rparr>,
       pcl_body = () \<rparr>"

definition counting_engine ::
  "(nat, nat, unit, nat, nat, unit, int, nat, int, unit, nat list) ORBSLAM3Interface" where
  "counting_engine =
     \<lparr> handleIMU = (\<lambda>msgIMU e. Suc e),
       getMapToOdomTF = (\<lambda>msgOdom tf e. (sec (stamp (odom_header msgOdom)), Suc e)),
       trackRGBDi = (\<lambda>msgRGB msgD e. ((msgRGB = msgD, msgRGB), Suc e)),
       handleLidarPCL = (\<lambda>t msgLidar e. Suc e),
       getTraversabilityData = (\<lambda>e. ((grid0, gridmap0), Suc e)),
       getCurrentMapPoints = (\<lambda>e. (cloud0, Suc e)),
       mapDataToMsg = (\<lambda>a b k e. (e, Suc e)) \<rparr>"

definition odom_at :: "int \<Rightarrow> unit Odometry" where
  "odom_at s =
     \<lparr> odom_header = \<lparr> stamp = \<lparr> sec = s, nanosec = 0 \<rparr>, frame_id = ''odom'' \<rparr>,
       odom_body = () \<rparr>"

definition node0 :: "bool \<Rightarrow> (int, int) RgbdSlamNode" where
  "node0 viz =
     RgbdSlamNode_init viz ''base_link'' ''map'' ''odom'' 1 1 \<lparr> sec = 0, nanosec = 0 \<rparr> 0"

section \<open>Facts about executions\<close>

lemmas callback_defs =
  ImuCallback_def OdomCallback_def RGBDCallback_def LidarCallback_def
  publishTraversabilityData_def publishMapData_def publishMapPointCloud_def getMapServer_def

lemmas fixture_defs =
  counting_engine_def node0_def RgbdSlamNode_init_def odom_at_def grid0_def gridmap0_def
  cloud0_def

lemma outcome_simps [simp]:
  "node_of (n, e, evs) = n" "engine_of (n, e, evs) = e" "events_of (n, e, evs) = evs"
  by (simp_all add: node_of_def engine_of_def events_of_def)

lemma run_Cons_node:
  "node_of (run I (x # xs) n e) =
     node_of (run I xs (node_of (step I x n e)) (engine_of (step I x n e)))"
  by (simp add: node_of_def engine_of_def split: prod.splits)

lemma run_Cons_engine:
  "engine_of (run I (x # xs) n e) =
     engine_of (run I xs (node_of (step I x n e)) (engine_of (step I x n e)))"
  by (simp add: node_of_def engine_of_def split: prod.splits)

lemma run_Cons_events:
  "events_of (run I (x # xs) n e) =
     events_of (step I x n e) @
     events_of (run I xs (node_of (step I x n e)) (engine_of (step I x n e)))"
  by (simp add: node_of_def engine_of_def events_of_def split: prod.splits)

lemma run_append_node:
  "node_of (run I (xs @ ys) n e) =
     node_of (run I ys (node_of (run I xs n e)) (engine_of (run I xs n e)))"
  by (induction xs arbitrary: n e)
     (simp_all add: run_Cons_node run_Cons_engine del: run.simps(2))

lemma run_append_engine:
  "engine_of (run I (xs @ ys) n e) =
     engine_of (run I ys (node_of (run I xs n e)) (engine_of (run I xs n e)))"
  by (induction xs arbitrary: n e)
     (simp_all add: run_Cons_node run_Cons_engine del: run.simps(2))

text \<open>Only the branch of \<^verbatim>\<open>RGBDCallback\<close> taken on success assigns \<^verbatim>\<open>isTracked_\<close>.\<close>

lemma step_isTracked:
  "isTracked (node_of (step I x n e)) = (isTracked n \<or> successful_track I x e)"
  by (cases x) (auto simp: callback_defs Let_def split: prod.splits)

lemma run_isTracked:
  "isTracked n \<Longrightarrow> isTracked (node_of (run I xs n e))"
proof (induction xs arbitrary: n e)
  case Nil
  then show ?case by simp
next
  case (Cons x xs)
  have "isTracked (node_of (step I x n e))"
    using Cons.prems by (simp add: step_isTracked)
  then show ?case
    by (simp only: run_Cons_node Cons.IH)
qed

text \<open>Only \<^verbatim>\<open>OdomCallback\<close> passes \<^verbatim>\<open>tfMapOdom_\<close> to anything that can write it.\<close>

lemma step_tfMapOdom:
  "\<not> is_Odom x \<Longrightarrow> tfMapOdom (node_of (step I x n e)) = tfMapOdom n"
  by (cases x) (auto simp: callback_defs Let_def split: prod.splits)

lemma run_tfMapOdom:
  "list_all (\<lambda>x. \<not> is_Odom x) xs \<Longrightarrow> tfMapOdom (node_of (run I xs n e)) = tfMapOdom n"
proof (induction xs arbitrary: n e)
  case Nil
  then show ?case by simp
next
  case (Cons x xs)
  have "tfMapOdom (node_of (step I x n e)) = tfMapOdom n"
    using Cons.prems by (simp add: step_tfMapOdom)
  moreover have "list_all (\<lambda>x. \<not> is_Odom x) xs"
    using Cons.prems by simp
  ultimately show ?case
    by (simp only: run_Cons_node Cons.IH)
qed

lemma mapPoints_msgs_append:
  "mapPoints_msgs (xs @ ys) = mapPoints_msgs xs @ mapPoints_msgs ys"
  by (induction xs rule: mapPoints_msgs.induct) simp_all

lemma step_mapPoints: "mapPoints_msgs (events_of (step I x n e)) = []"
  by (cases x) (auto simp: callback_defs Let_def split: prod.splits)

lemma run_mapPoints: "mapPoints_msgs (events_of (run I xs n e)) = []"
  by (induction xs arbitrary: n e)
     (simp_all add: run_Cons_events mapPoints_msgs_append step_mapPoints del: run.simps(2))

section \<open>The tracking flag\<close>

text \<open>
  C3. The tracking flag starts false; a callback leaves it true exactly when it was true
  before or the callback is an RGB-D callback whose tracking call succeeded, so nothing
  but a successful track changes it and a later success changes nothing; and once true it
  is true after every further sequence of callbacks, timer ticks and service calls.
\<close>

theorem tracking_flag_set_once_never_reset:
  "isTracked (RgbdSlamNode_init viz b g od rx ry t0 tf0) = False \<and>
   isTracked (node_of (step I x n e)) = (isTracked n \<or> successful_track I x e) \<and>
   (isTracked n \<longrightarrow> isTracked (node_of (run I xs n e)))"
  by (simp add: step_isTracked run_isTracked) (simp add: RgbdSlamNode_init_def)

text \<open>
  On the stand-in engine: a failed track leaves the flag false, a successful one sets it,
  and from a tracked node a failed track, both timers, odometry, IMU and a map query
  leave it set.
\<close>

theorem tracking_flag_set_once_never_reset_witness:
  "\<not> isTracked (node0 True) \<and>
   \<not> isTracked (node_of (step counting_engine (RGBD 1 2) (node0 True) 0)) \<and>
   isTracked (node_of (step counting_engine (RGBD 3 3) (node0 True) 0)) \<and>
   isTracked ((node0 True)\<lparr>isTracked := True\<rparr>) \<and>
   isTracked (node_of (run counting_engine
      [RGBD 1 2, MapDataTimer, Odom (odom_at 7), TraversabilityTimer, Imu 5,
       GetMap \<lparr>tracked_points = True, kf_id_for_landmarks = [7]\<rparr>]
      ((node0 True)\<lparr>isTracked := True\<rparr>) 0))"
  using tracking_flag_set_once_never_reset
          [of True "''base_link''" "''map''" "''odom''" "1::int" 1 "\<lparr>sec = 0, nanosec = 0\<rparr>" "0::int"
              counting_engine "RGBD 1 2" "node0 True" 0]
        tracking_flag_set_once_never_reset
          [of True "''base_link''" "''map''" "''odom''" "1::int" 1 "\<lparr>sec = 0, nanosec = 0\<rparr>" "0::int"
              counting_engine "RGBD 3 3" "node0 True" 0]
        tracking_flag_set_once_never_reset
          [of True "''base_link''" "''map''" "''odom''" "1::int" 1 "\<lparr>sec = 0, nanosec = 0\<rparr>" "0::int"
              counting_engine "RGBD 1 2" "(node0 True)\<lparr>isTracked := True\<rparr>" 0
              "[RGBD 1 2, MapDataTimer, Odom (odom_at 7), TraversabilityTimer, Imu 5,
                GetMap \<lparr>tracked_points = True, kf_id_for_landmarks = [7]\<rparr>]"]
  by (simp add: fixture_defs)

section \<open>The map-data timer\<close>

text \<open>
  C4. A tick of the map-data timer while the tracking flag is false produces no event at
  all. A tick while the flag is true asks the engine once, with the arguments
  \<open>(true, false)\<close>, and publishes exactly one map-data message, the one that call
  returned; and since the flag stays true, so does a tick after any further execution.
\<close>

theorem map_data_tick_gated_by_flag:
  "(\<not> isTracked n \<longrightarrow> events_of (publishMapData I n e) = []) \<and>
   (isTracked n \<longrightarrow>
      mapData_msgs (events_of (publishMapData I n e)) = [fst (mapDataToMsg I True False None e)] \<and>
      engine_calls (events_of (publishMapData I n e)) = [MapDataToMsg True False None] \<and>
      length (mapData_msgs (events_of
        (publishMapData I (node_of (run I xs n e)) (engine_of (run I xs n e))))) = 1)"
proof -
  have later: "isTracked n \<Longrightarrow> isTracked (node_of (run I xs n e))"
    by (rule run_isTracked)
  show ?thesis
    using later by (simp add: publishMapData_def Let_def)
qed

theorem map_data_tick_gated_by_flag_witness:
  "\<not> isTracked (node0 False) \<and>
   events_of (publishMapData counting_engine (node0 False) 4) = [] \<and>
   isTracked ((node0 False)\<lparr>isTracked := True\<rparr>) \<and>
   mapData_msgs (events_of
     (publishMapData counting_engine ((node0 False)\<lparr>isTracked := True\<rparr>) 4)) = [4] \<and>
   length (mapData_msgs (events_of
     (publishMapData counting_engine
        (node_of (run counting_engine [RGBD 1 2, Imu 0] ((node0 False)\<lparr>isTracked := True\<rparr>) 4))
        (engine_of (run counting_engine [RGBD 1 2, Imu 0] ((node0 False)\<lparr>isTracked := True\<rparr>) 4))))) = 1"
  using map_data_tick_gated_by_flag [of "node0 False" counting_engine 4]
        map_data_tick_gated_by_flag
          [of "(node0 False)\<lparr>isTracked := True\<rparr>" counting_engine 4 "[RGBD 1 2, Imu 0]"]
  by (simp add: fixture_defs)

section \<open>The RGB-D callback\<close>

text \<open>
  C5. When the engine's tracking call reports failure, the RGB-D callback returns the
  node exactly as it found it (the tracking flag and every other member), and its only
  event is the tracking call itself: no transform is broadcast, the point cloud is not
  asked for, nothing is published. The engine state is the one the tracking call left.
\<close>

theorem failed_track_changes_nothing:
  "\<not> fst (fst (trackRGBDi I msgRGB msgD e)) \<Longrightarrow>
   RGBDCallback I msgRGB msgD n e = (n, snd (trackRGBDi I msgRGB msgD e), [Engine TrackRGBDi])"
  by (simp add: RGBDCallback_def Let_def)

theorem failed_track_changes_nothing_witness:
  "\<not> fst (fst (trackRGBDi counting_engine 1 2 0)) \<and>
   RGBDCallback counting_engine 1 2 (node0 True) 0 = (node0 True, 1, [Engine TrackRGBDi])"
proof -
  have h: "\<not> fst (fst (trackRGBDi counting_engine 1 2 0))"
    by (simp add: counting_engine_def)
  show ?thesis
    using h failed_track_changes_nothing [OF h, of "node0 True"]
    by (simp add: counting_engine_def)
qed

text \<open>
  C7. On a successful track the one transform handed to the broadcaster is the member
  \<^verbatim>\<open>tfMapOdom_\<close> as the callback finds it; the pose the tracking call computed does not
  enter it. And that member is what the odometry path wrote last: after any execution
  whose last odometry message is \<open>msgOdom\<close>, a successful track broadcasts the transform
  that \<^verbatim>\<open>getMapToOdomTF\<close> returned for \<open>msgOdom\<close>. No other callback touches the member:
  without an odometry message it keeps the value it had.
\<close>

theorem broadcast_is_stored_odometry_transform:
  "(fst (fst (trackRGBDi I msgRGB msgD e)) \<longrightarrow>
      transforms (events_of (RGBDCallback I msgRGB msgD n e)) = [tfMapOdom n]) \<and>
   (list_all (\<lambda>x. \<not> is_Odom x) mid \<and>
    fst (fst (trackRGBDi I msgRGB msgD (engine_of (run I (pre @ Odom msgOdom # mid) n0 e0)))) \<longrightarrow>
      transforms (events_of
        (RGBDCallback I msgRGB msgD
           (node_of (run I (pre @ Odom msgOdom # mid) n0 e0))
           (engine_of (run I (pre @ Odom msgOdom # mid) n0 e0)))) =
        [fst (getMapToOdomTF I msgOdom (tfMapOdom (node_of (run I pre n0 e0)))
               (engine_of (run I pre n0 e0)))]) \<and>
   (list_all (\<lambda>x. \<not> is_Odom x) xs \<longrightarrow>
      tfMapOdom (node_of (run I xs n0 e0)) = tfMapOdom n0)"
proof -
  have a: "transforms (events_of (RGBDCallback I msgRGB msgD n' e')) = [tfMapOdom n']"
    if "fst (fst (trackRGBDi I msgRGB msgD e'))" for n' e'
    using that by (simp add: RGBDCallback_def publishMapPointCloud_def Let_def)
  have b: "tfMapOdom (node_of (run I (pre @ Odom msgOdom # mid) n0 e0)) =
        fst (getMapToOdomTF I msgOdom (tfMapOdom (node_of (run I pre n0 e0)))
               (engine_of (run I pre n0 e0)))"
    if m: "list_all (\<lambda>x. \<not> is_Odom x) mid"
  proof -
    have "tfMapOdom (node_of (run I (pre @ Odom msgOdom # mid) n0 e0)) =
          tfMapOdom (node_of (step I (Odom msgOdom) (node_of (run I pre n0 e0))
                                (engine_of (run I pre n0 e0))))"
      by (simp only: run_append_node run_Cons_node run_tfMapOdom [OF m])
    also have "\<dots> = fst (getMapToOdomTF I msgOdom (tfMapOdom (node_of (run I pre n0 e0)))
               (engine_of (run I pre n0 e0)))"
      by (simp add: OdomCallback_def Let_def)
    finally show ?thesis .
  qed
  have c: "list_all (\<lambda>x. \<not> is_Odom x) xs \<Longrightarrow>
      tfMapOdom (node_of (run I xs n0 e0)) = tfMapOdom n0"
    by (rule run_tfMapOdom)
  show ?thesis using a b c by simp
qed

text \<open>
  On the stand-in engine: odometry at 3 and then at 7, a failed track and a map tick in
  between, then a successful track, which broadcasts 7.
\<close>

theorem broadcast_is_stored_odometry_transform_witness:
  "fst (fst (trackRGBDi counting_engine 3 3 5)) \<and>
   transforms (events_of (RGBDCallback counting_engine 3 3 ((node0 True)\<lparr>tfMapOdom := 9\<rparr>) 5)) = [9] \<and>
   list_all (\<lambda>x. \<not> is_Odom x) [RGBD 1 2, MapDataTimer] \<and>
   transforms (events_of
     (RGBDCallback counting_engine 3 3
        (node_of (run counting_engine
           ([Odom (odom_at 3), Imu 1] @ Odom (odom_at 7) # [RGBD 1 2, MapDataTimer]) (node0 True) 0))
        (engine_of (run counting_engine
           ([Odom (odom_at 3), Imu 1] @ Odom (odom_at 7) # [RGBD 1 2, MapDataTimer]) (node0 True) 0)))) = [7] \<and>
   list_all (\<lambda>x. \<not> is_Odom x) [RGBD 3 3, TraversabilityTimer] \<and>
   tfMapOdom (node_of (run counting_engine [RGBD 3 3, TraversabilityTimer] (node0 True) 0)) = 0"
  using broadcast_is_stored_odometry_transform
          [of counting_engine 3 3 5 "(node0 True)\<lparr>tfMapOdom := 9\<rparr>"
              "[RGBD 1 2, MapDataTimer]" "[Odom (odom_at 3), Imu 1]" "odom_at 7" "node0 True" 0
              "[RGBD 3 3, TraversabilityTimer]"]
  by (simp add: fixture_defs)

text \<open>
  C8, as the spec states it, fails: with ROS visualization on, a successful track asks
  the engine for the point cloud and then publishes nothing on \<^verbatim>\<open>map_points\<close>.
\<close>

theorem point_cloud_publish_counterexample:
  "rosViz (node0 True) \<and> fst (fst (trackRGBDi counting_engine 3 3 0)) \<and>
   events_of (RGBDCallback counting_engine 3 3 (node0 True) 0) =
     [Engine TrackRGBDi, SendTransform 0, Engine GetCurrentMapPoints] \<and>
   mapPoints_msgs (events_of (RGBDCallback counting_engine 3 3 (node0 True) 0)) = []"
  by (simp add: fixture_defs callback_defs)

text \<open>
  C8, amended. The RGB-D callback asks the engine for the current map point cloud once,
  after the tracking call, exactly when the track succeeded and ROS visualization is on;
  otherwise it does not ask. In no case is a message published on the point-cloud
  channel, by this callback or anywhere in an execution.
\<close>

theorem point_cloud_requested_not_published:
  "engine_calls (events_of (RGBDCallback I msgRGB msgD n e)) =
     (if fst (fst (trackRGBDi I msgRGB msgD e)) \<and> rosViz n
      then [TrackRGBDi, GetCurrentMapPoints] else [TrackRGBDi]) \<and>
   mapPoints_msgs (events_of (RGBDCallback I msgRGB msgD n e)) = [] \<and>
   mapPoints_msgs (events_of (run I xs n e)) = []"
  by (simp add: run_mapPoints) (simp add: RGBDCallback_def publishMapPointCloud_def Let_def)

theorem point_cloud_requested_not_published_witness:
  "engine_calls (events_of (RGBDCallback counting_engine 3 3 (node0 True) 0)) =
     [TrackRGBDi, GetCurrentMapPoints] \<and>
   engine_calls (events_of (RGBDCallback counting_engine 3 3 (node0 False) 0)) = [TrackRGBDi] \<and>
   engine_calls (events_of (RGBDCallback counting_engine 1 2 (node0 True) 0)) = [TrackRGBDi] \<and>
   mapPoints_msgs (events_of (run counting_engine [RGBD 3 3, MapDataTimer] (node0 True) 0)) = []"
  using point_cloud_requested_not_published
          [of counting_engine 3 3 "node0 True" 0 "[RGBD 3 3, MapDataTimer]"]
        point_cloud_requested_not_published [of counting_engine 3 3 "node0 False" 0 "[]"]
        point_cloud_requested_not_published [of counting_engine 1 2 "node0 True" 0 "[]"]
  by (simp add: fixture_defs)

section \<open>The map query and the map-data timer\<close>

text \<open>
  C9, as the spec states it, fails. The declaration of \<^verbatim>\<open>mapDataToMsg\<close> is not in the
  file, so its parameters are known by position only. For a request that does not ask
  for tracked points, every flag the handler passes is false, while the timer passes
  true first: no flag is false for the timer and true for every query.
\<close>

theorem query_landmark_flag_counterexample:
  "engine_calls (events_of
     (getMapServer counting_engine \<lparr>tracked_points = False, kf_id_for_landmarks = []\<rparr> 0)) =
     [MapDataToMsg False False (Some [])] \<and>
   engine_calls (events_of
     (publishMapData counting_engine ((node0 True)\<lparr>isTracked := True\<rparr>) 0)) =
     [MapDataToMsg True False None]"
  by (simp add: fixture_defs callback_defs)

text \<open>
  C9, amended. A tick of the map-data timer (when tracking) requests its snapshot with
  the fixed arguments \<open>(true, false)\<close> and no keyframe ids, and publishes what it got.
  The query handler requests its snapshot with first flag false, second flag the
  request's \<^verbatim>\<open>tracked_points\<close>, and the request's \<^verbatim>\<open>kf_id_for_landmarks\<close>, and returns what it got.
\<close>

theorem map_snapshot_arguments:
  "engine_calls (events_of (publishMapData I n e)) =
     (if isTracked n then [MapDataToMsg True False None] else []) \<and>
   mapData_msgs (events_of (publishMapData I n e)) =
     (if isTracked n then [fst (mapDataToMsg I True False None e)] else []) \<and>
   engine_calls (events_of (getMapServer I request e')) =
     [MapDataToMsg False (tracked_points request) (Some (kf_id_for_landmarks request))] \<and>
   fst (getMapServer I request e') =
     fst (mapDataToMsg I False (tracked_points request) (Some (kf_id_for_landmarks request)) e')"
  by (simp add: publishMapData_def getMapServer_def Let_def events_of_def)

theorem map_snapshot_arguments_witness:
  "engine_calls (events_of (publishMapData counting_engine ((node0 True)\<lparr>isTracked := True\<rparr>) 2)) =
     [MapDataToMsg True False None] \<and>
   mapData_msgs (events_of (publishMapData counting_engine ((node0 True)\<lparr>isTracked := True\<rparr>) 2)) = [2] \<and>
   engine_calls (events_of
     (getMapServer counting_engine \<lparr>tracked_points = True, kf_id_for_landmarks = [7]\<rparr> 3)) =
     [MapDataToMsg False True (Some [7])] \<and>
   fst (getMapServer counting_engine \<lparr>tracked_points = True, kf_id_for_landmarks = [7]\<rparr> 3) = 3"
  using map_snapshot_arguments
          [of counting_engine "(node0 True)\<lparr>isTracked := True\<rparr>" 2
              "\<lparr>tracked_points = True, kf_id_for_landmarks = [7]\<rparr>" 3]
  by (simp add: fixture_defs)

section \<open>The traversability timer\<close>

text \<open>
  C10, as the spec states it, fails: the structured grid-map goes out as the engine
  returned it. Here the node's global frame is \<open>map\<close> and its latest time is 7, and the
  published grid-map still carries the engine's frame and the stamp 0.
\<close>

theorem grid_map_stamp_counterexample:
  "global_frame ((node0 True)\<lparr>latestTime := \<lparr>sec = 7, nanosec = 0\<rparr>\<rparr>) = ''map'' \<and>
   latestTime ((node0 True)\<lparr>latestTime := \<lparr>sec = 7, nanosec = 0\<rparr>\<rparr>) = \<lparr>sec = 7, nanosec = 0\<rparr> \<and>
   traversability_msgs (events_of
     (publishTraversabilityData counting_engine
        ((node0 True)\<lparr>latestTime := \<lparr>sec = 7, nanosec = 0\<rparr>\<rparr>) 0)) =
     [\<lparr> gm_header = \<lparr> stamp = \<lparr> sec = 0, nanosec = 0 \<rparr>, frame_id = ''engine'' \<rparr>,
        gm_body = () \<rparr>]"
  by (simp add: fixture_defs callback_defs)

text \<open>
  C10, amended. On every tick exactly one occupancy grid and one structured grid-map are
  published. The occupancy grid is the engine's, with the x and y of its origin moved by
  \<^verbatim>\<open>robot_x_\<close> and \<^verbatim>\<open>robot_y_\<close>, everything else of its origin and its data kept, and its
  header set to the global frame and the latest time of the node. The structured
  grid-map is the engine's, unchanged.
\<close>

theorem traversability_tick_outputs:
  "map (\<lambda>g. pt_x (position (origin (og_info g))))
       (gridmap_msgs (events_of (publishTraversabilityData I n e))) =
     [pt_x (position (origin (og_info (fst (fst (getTraversabilityData I e)))))) + robot_x n] \<and>
   map (\<lambda>g. pt_y (position (origin (og_info g))))
       (gridmap_msgs (events_of (publishTraversabilityData I n e))) =
     [pt_y (position (origin (og_info (fst (fst (getTraversabilityData I e)))))) + robot_y n] \<and>
   map (\<lambda>g. (pt_z (position (origin (og_info g))), orientation (origin (og_info g)), og_data g))
       (gridmap_msgs (events_of (publishTraversabilityData I n e))) =
     [(pt_z (position (origin (og_info (fst (fst (getTraversabilityData I e)))))),
       orientation (origin (og_info (fst (fst (getTraversabilityData I e))))),
       og_data (fst (fst (getTraversabilityData I e))))] \<and>
   map og_header (gridmap_msgs (events_of (publishTraversabilityData I n e))) =
     [\<lparr> stamp = latestTime n, frame_id = global_frame n \<rparr>] \<and>
   traversability_msgs (events_of (publishTraversabilityData I n e)) =
     [snd (fst (getTraversabilityData I e))]"
  by (simp add: publishTraversabilityData_def Let_def)

theorem traversability_tick_outputs_witness:
  "map (\<lambda>g. pt_x (position (origin (og_info g))))
       (gridmap_msgs (events_of (publishTraversabilityData counting_engine
           ((node0 True)\<lparr>latestTime := \<lparr>sec = 7, nanosec = 0\<rparr>\<rparr>) 0))) = [11] \<and>
   map (\<lambda>g. pt_y (position (origin (og_info g))))
       (gridmap_msgs (events_of (publishTraversabilityData counting_engine
           ((node0 True)\<lparr>latestTime := \<lparr>sec = 7, nanosec = 0\<rparr>\<rparr>) 0))) = [21] \<and>
   map og_header
       (gridmap_msgs (events_of (publishTraversabilityData counting_engine
           ((node0 True)\<lparr>latestTime := \<lparr>sec = 7, nanosec = 0\<rparr>\<rparr>) 0))) =
     [\<lparr> stamp = \<lparr>sec = 7, nanosec = 0\<rparr>, frame_id = ''map'' \<rparr>] \<and>
   traversability_msgs (events_of (publishTraversabilityData counting_engine
           ((node0 True)\<lparr>latestTime := \<lparr>sec = 7, nanosec = 0\<rparr>\<rparr>) 0)) = [gridmap0]"
  using traversability_tick_outputs
          [of counting_engine "(node0 True)\<lparr>latestTime := \<lparr>sec = 7, nanosec = 0\<rparr>\<rparr>" 0]
  by (simp add: counting_engine_def node0_def RgbdSlamNode_init_def grid0_def)

section \<open>The scope of the lock\<close>

text \<open>
  C2, as the spec states it, fails: on a tick of the traversability timer the engine
  query and both publish calls happen while \<^verbatim>\<open>latestTimeMutex_\<close> is held.
\<close>

theorem lock_held_across_calls_counterexample:
  "under_lock False (events_of (publishTraversabilityData counting_engine (node0 True) 0)) =
     [Engine GetTraversabilityData,
      Publish_gridmap
        \<lparr>og_header = \<lparr>stamp = \<lparr>sec = 0, nanosec = 0\<rparr>, frame_id = ''map''\<rparr>,
         og_info = \<lparr>map_load_time = \<lparr>sec = 0, nanosec = 0\<rparr>, resolution = 1,
                    width = 2, height = 1,
                    origin = \<lparr>position = \<lparr>pt_x = 11, pt_y = 21, pt_z = 0\<rparr>,
                               orientation = \<lparr>q_x = 0, q_y = 0, q_z = 0, q_w = 1\<rparr>\<rparr>\<rparr>,
         og_data = [0, 100]\<rparr>,
      Publish_traversability
        \<lparr>gm_header = \<lparr>stamp = \<lparr>sec = 0, nanosec = 0\<rparr>, frame_id = ''engine''\<rparr>, gm_body = ()\<rparr>] \<and>
   lock_spans_call (events_of (publishTraversabilityData counting_engine (node0 True) 0))"
  by (simp add: fixture_defs callback_defs lock_spans_call_def)

text \<open>
  C2, amended. The events of a traversability tick are exactly: take the lock, query the
  engine, publish the occupancy grid, publish the structured grid-map, release the lock.
  The lock is taken once and released once, so the engine query and the two publish
  calls all happen under it. The odometry callback does the same around its call of
  \<^verbatim>\<open>getMapToOdomTF\<close>. No other callback, timer or service handler takes the lock.
\<close>

theorem lock_scope_is_whole_callback:
  "events_of (publishTraversabilityData I n e) =
     [Lock,
      Engine GetTraversabilityData,
      Publish_gridmap
        ((fst (fst (getTraversabilityData I e)))
           \<lparr>og_header := (og_header (fst (fst (getTraversabilityData I e))))
              \<lparr>frame_id := global_frame n, stamp := latestTime n\<rparr>,
            og_info := (og_info (fst (fst (getTraversabilityData I e))))
              \<lparr>origin := (origin (og_info (fst (fst (getTraversabilityData I e)))))
                 \<lparr>position := (position (origin (og_info (fst (fst (getTraversabilityData I e))))))
                    \<lparr>pt_x := pt_x (position (origin (og_info (fst (fst (getTraversabilityData I e))))))
                             + robot_x n,
                     pt_y := pt_y (position (origin (og_info (fst (fst (getTraversabilityData I e))))))
                             + robot_y n\<rparr>\<rparr>\<rparr>\<rparr>),
      Publish_traversability (snd (fst (getTraversabilityData I e))),
      Unlock] \<and>
   filter (\<lambda>ev. ev = Lock \<or> ev = Unlock) (events_of (publishTraversabilityData I n e)) =
     [Lock, Unlock] \<and>
   hd (events_of (publishTraversabilityData I n e)) = Lock \<and>
   last (events_of (publishTraversabilityData I n e)) = Unlock \<and>
   engine_calls (under_lock False (events_of (publishTraversabilityData I n e))) =
     [GetTraversabilityData] \<and>
   gridmap_msgs (under_lock False (events_of (publishTraversabilityData I n e))) =
     gridmap_msgs (events_of (publishTraversabilityData I n e)) \<and>
   traversability_msgs (under_lock False (events_of (publishTraversabilityData I n e))) =
     traversability_msgs (events_of (publishTraversabilityData I n e)) \<and>
   length (gridmap_msgs (events_of (publishTraversabilityData I n e))) = 1 \<and>
   length (traversability_msgs (events_of (publishTraversabilityData I n e))) = 1 \<and>
   events_of (OdomCallback I msgOdom n e) =
     [Lock, Log DEBUG ''OdomCallback'', Engine GetMapToOdomTF, Unlock] \<and>
   engine_calls (under_lock False (events_of (OdomCallback I msgOdom n e))) = [GetMapToOdomTF] \<and>
   Lock \<notin> set (events_of (ImuCallback I msgIMU n e)) \<and>
   Lock \<notin> set (events_of (RGBDCallback I msgRGB msgD n e)) \<and>
   Lock \<notin> set (events_of (LidarCallback I msgLidar n e)) \<and>
   Lock \<notin> set (events_of (publishMapData I n e)) \<and>
   Lock \<notin> set (events_of (getMapServer I request e))"
  by (simp add: callback_defs Let_def events_of_def)

theorem lock_scope_is_whole_callback_witness:
  "events_of (publishTraversabilityData counting_engine (node0 True) 0) =
     [Lock,
      Engine GetTraversabilityData,
      Publish_gridmap
        \<lparr>og_header = \<lparr>stamp = \<lparr>sec = 0, nanosec = 0\<rparr>, frame_id = ''map''\<rparr>,
         og_info = \<lparr>map_load_time = \<lparr>sec = 0, nanosec = 0\<rparr>, resolution = 1,
                    width = 2, height = 1,
                    origin = \<lparr>position = \<lparr>pt_x = 11, pt_y = 21, pt_z = 0\<rparr>,
                               orientation = \<lparr>q_x = 0, q_y = 0, q_z = 0, q_w = 1\<rparr>\<rparr>\<rparr>,
         og_data = [0, 100]\<rparr>,
      Publish_traversability
        \<lparr>gm_header = \<lparr>stamp = \<lparr>sec = 0, nanosec = 0\<rparr>, frame_id = ''engine''\<rparr>, gm_body = ()\<rparr>,
      Unlock] \<and>
   engine_calls (under_lock False
     (events_of (publishTraversabilityData counting_engine (node0 True) 0))) =
     [GetTraversabilityData] \<and>
   length (gridmap_msgs (under_lock False
     (events_of (publishTraversabilityData counting_engine (node0 True) 0)))) = 1 \<and>
   length (traversability_msgs (under_lock False
     (events_of (publishTraversabilityData counting_engine (node0 True) 0)))) = 1 \<and>
   engine_calls (under_lock False
     (events_of (OdomCallback counting_engine (odom_at 7) (node0 True) 0))) = [GetMapToOdomTF] \<and>
   Lock \<notin> set (events_of (RGBDCallback counting_engine 3 3 (node0 True) 0))"
  using lock_scope_is_whole_callback
          [of counting_engine "node0 True" 0 "odom_at 7" 0 3 3 cloud0
              "\<lparr>tracked_points = True, kf_id_for_landmarks = [7]\<rparr>"]
  by (simp add: fixture_defs)

end
